theory Spec2Isabelle
  imports Main "HOL-Library.Multiset"
begin

section \<open>Sticky notes: the Note model, the NoteForm validator and the five views\<close>

text \<open>
  The application is three Python modules on top of Django: \<^verbatim>\<open>notes/models.py\<close>
  declares the \<^verbatim>\<open>Note\<close> table, \<^verbatim>\<open>notes/forms.py\<close> the \<^verbatim>\<open>NoteForm\<close>
  model form over its two fields, and \<^verbatim>\<open>notes/views.py\<close> the five function views.
  The views are embedded line by line. What they call in the framework (cleaning of a
  form field, the object manager of a table, \<^verbatim>\<open>get_object_or_404\<close>) is written out
  as the functions below, each with the framework behaviour it stands for.
\<close>

subsection \<open>Python strings\<close>

text \<open>
  A Python \<^verbatim>\<open>str\<close> is a sequence of Unicode code points, and \<^verbatim>\<open>len\<close> counts code
  points; so a string is a list of code points here. \<open>str_of\<close> reads an ASCII literal.
\<close>

type_synonym pystr = "nat list"

definition str_of :: "string \<Rightarrow> pystr" where
  "str_of cs = map of_char cs"

text \<open>
  \<^verbatim>\<open>str.isspace\<close> for one code point: the code points CPython lists as whitespace
  (tab to carriage return, the four separators 28 to 31, space, NEL, no-break space,
  and the Unicode space separators and line and paragraph separators).
\<close>

definition isspace :: "nat \<Rightarrow> bool" where
  "isspace c \<longleftrightarrow>
     (9 \<le> c \<and> c \<le> 13) \<or> (28 \<le> c \<and> c \<le> 32) \<or> c = 133 \<or> c = 160 \<or> c = 5760 \<or>
     (8192 \<le> c \<and> c \<le> 8202) \<or> c = 8232 \<or> c = 8233 \<or> c = 8239 \<or> c = 8287 \<or>
     c = 12288"

text \<open>\<^verbatim>\<open>str.strip()\<close>: leading and trailing whitespace removed.\<close>

definition strip :: "pystr \<Rightarrow> pystr" where
  "strip s = rev (dropWhile isspace (rev (dropWhile isspace s)))"

subsection \<open>models.py: the Note table\<close>

text \<open>
  \<^verbatim>\<open>
  class Note(models.Model):
      title = models.CharField(max_length=255)
      content = models.TextField()
  \<close>
  A row has the automatic primary key \<^verbatim>\<open>id\<close> and the two declared columns.
\<close>

record Note =
  note_id :: int
  title :: pystr
  content :: pystr

text \<open>\<^verbatim>\<open>max_length\<close> of the two model fields: 255 for the title, none for the content.\<close>

definition title_max_length :: "nat option" where
  "title_max_length = Some 255"

definition content_max_length :: "nat option" where
  "content_max_length = None"

text \<open>
  The table as the object manager presents it: the rows in insertion order and the
  counter of the automatic primary key, which starts at 1 and never goes back.
\<close>

record store =
  rows :: "Note list"
  next_id :: int

definition empty_store :: store where
  "empty_store = \<lparr>rows = [], next_id = 1\<rparr>"

text \<open>\<^verbatim>\<open>Note.objects.all()\<close> and \<^verbatim>\<open>.order_by("id")\<close>.\<close>

definition objects_all :: "store \<Rightarrow> Note list" where
  "objects_all s = rows s"

definition order_by_id :: "Note list \<Rightarrow> Note list" where
  "order_by_id ns = sort_key note_id ns"

text \<open>The row with primary key \<open>pk\<close>, if there is one.\<close>

definition objects_get :: "store \<Rightarrow> int \<Rightarrow> Note option" where
  "objects_get s pk = find (\<lambda>n. note_id n = pk) (rows s)"

text \<open>
  \<^verbatim>\<open>get_object_or_404(Note, pk=pk)\<close> raises \<^verbatim>\<open>Http404\<close> when no row has the key;
  the framework turns the exception into a response of status 404.
\<close>

datatype error = Http404

definition get_object_or_404 :: "store \<Rightarrow> int \<Rightarrow> error + Note" where
  "get_object_or_404 s pk =
     (case objects_get s pk of None \<Rightarrow> Inl Http404 | Some n \<Rightarrow> Inr n)"

text \<open>
  \<^verbatim>\<open>Model.save()\<close>. An instance without a primary key is inserted under the next
  key. An instance with one updates the row of that key, and is inserted under its
  key when the table has no such row.
\<close>

definition insert_row :: "pystr \<Rightarrow> pystr \<Rightarrow> store \<Rightarrow> Note \<times> store" where
  "insert_row t c s =
     (let n = \<lparr>note_id = next_id s, title = t, content = c\<rparr>
      in (n, s\<lparr>rows := rows s @ [n], next_id := next_id s + 1\<rparr>))"


definition save_row :: "Note \<Rightarrow> store \<Rightarrow> Note \<times> store" where
  "save_row n s =
     (if \<exists>r \<in> set (rows s). note_id r = note_id n
      then (n, s\<lparr>rows := map (\<lambda>r. if note_id r = note_id n then n else r) (rows s)\<rparr>)
      else (n, s\<lparr>rows := rows s @ [n]\<rparr>))"

text \<open>\<^verbatim>\<open>note.delete()\<close>: the row of that key is removed.\<close>

definition delete_row :: "Note \<Rightarrow> store \<Rightarrow> store" where
  "delete_row n s = s\<lparr>rows := filter (\<lambda>r. note_id r \<noteq> note_id n) (rows s)\<rparr>"

subsection \<open>forms.py: NoteForm\<close>

text \<open>
  \<^verbatim>\<open>
  class NoteForm(forms.ModelForm):
      class Meta:
          model = Note
          fields = ["title", "content"]
  \<close>
  Both model fields become a required form \<^verbatim>\<open>CharField\<close> with \<^verbatim>\<open>strip=True\<close>;
  the title's carries \<^verbatim>\<open>max_length=255\<close>. The submitted data is what
  \<^verbatim>\<open>request.POST.get\<close> gives for each of the two names: \<open>None\<close> for an absent key.
\<close>

record post_data =
  p_title :: "pystr option"
  p_content :: "pystr option"

datatype validation_error = Required | MaxLength nat nat | NullCharacters | Blank

function show_nat :: "nat \<Rightarrow> string" where
  "show_nat n =
     (if n < 10 then [char_of (48 + n)]
      else show_nat (n div 10) @ [char_of (48 + n mod 10)])"
  by pat_completeness auto
termination
  by (relation "measure id") auto

fun message :: "validation_error \<Rightarrow> string" where
  "message Required = ''This field is required.''"
| "message (MaxLength limit n) =
     ''Ensure this value has at most '' @ show_nat limit @ '' characters (it has '' @
     show_nat n @ '').''"
| "message NullCharacters = ''Null characters are not allowed.''"
| "message Blank = ''This field cannot be blank.''"

text \<open>
  \<^verbatim>\<open>CharField.to_python\<close>: an absent or empty value is the empty string, any other
  value is stripped.
\<close>

definition to_python :: "pystr option \<Rightarrow> pystr" where
  "to_python raw = (case raw of None \<Rightarrow> [] | Some v \<Rightarrow> if v = [] then [] else strip v)"

text \<open>
  \<^verbatim>\<open>Field.run_validators\<close> of the form field: the maximum length when the field has
  one, then the check for null characters, all failures collected.
\<close>

definition run_validators :: "nat option \<Rightarrow> pystr \<Rightarrow> validation_error list" where
  "run_validators limit v =
     (case limit of
        None \<Rightarrow> []
      | Some m \<Rightarrow> if m < length v then [MaxLength m (length v)] else []) @
     (if 0 \<in> set v then [NullCharacters] else [])"

text \<open>
  \<^verbatim>\<open>Field.clean\<close>: \<^verbatim>\<open>to_python\<close>, then \<^verbatim>\<open>validate\<close> (an empty value of a required
  field raises the required error), then the validators.
\<close>

definition clean_field :: "nat option \<Rightarrow> pystr option \<Rightarrow> validation_error list + pystr" where
  "clean_field limit raw =
     (let v = to_python raw
      in if v = [] then Inl [Required]
         else (case run_validators limit v of [] \<Rightarrow> Inr v | e # es \<Rightarrow> Inl (e # es)))"

text \<open>
  The model's own check of a value that passed the form field
  (\<^verbatim>\<open>Model.full_clean\<close>, run by the model form on the fields without a form error):
  the value is not blank and respects the model field's \<^verbatim>\<open>max_length\<close>.
\<close>

definition model_clean :: "nat option \<Rightarrow> pystr \<Rightarrow> validation_error list" where
  "model_clean limit v =
     (if v = [] then [Blank]
      else (case limit of
              None \<Rightarrow> []
            | Some m \<Rightarrow> if m < length v then [MaxLength m (length v)] else []))"

definition field_errors :: "nat option \<Rightarrow> pystr option \<Rightarrow> validation_error list" where
  "field_errors limit raw =
     (case clean_field limit raw of Inl es \<Rightarrow> es | Inr v \<Rightarrow> model_clean limit v)"

text \<open>
  A form: the submitted data when it is bound, and the instance it edits when it was
  built with \<^verbatim>\<open>instance=note\<close>; \<^verbatim>\<open>NoteForm()\<close> is \<open>NoteForm None None\<close>.
  The instance is the one the form was given: what validation writes on the Python
  object in memory reaches the table only through \<^verbatim>\<open>form.save()\<close>.
\<close>

record form =
  form_data :: "post_data option"
  form_instance :: "Note option"

definition NoteForm :: "post_data option \<Rightarrow> Note option \<Rightarrow> form" where
  "NoteForm d inst = \<lparr>form_data = d, form_instance = inst\<rparr>"

text \<open>
  \<^verbatim>\<open>form.errors\<close>: the fields that have errors, in the order of \<^verbatim>\<open>Meta.fields\<close>, each
  with its errors. An unbound form has none.
\<close>

definition errors_of :: "string \<Rightarrow> validation_error list \<Rightarrow> (string \<times> validation_error list) list" where
  "errors_of name es = (if es = [] then [] else [(name, es)])"

definition form_errors :: "form \<Rightarrow> (string \<times> validation_error list) list" where
  "form_errors f =
     (case form_data f of
        None \<Rightarrow> []
      | Some d \<Rightarrow>
          errors_of ''title'' (field_errors title_max_length (p_title d)) @
          errors_of ''content'' (field_errors content_max_length (p_content d)))"

text \<open>\<^verbatim>\<open>form.is_valid()\<close>: the form is bound and has no errors.\<close>

definition is_valid :: "form \<Rightarrow> bool" where
  "is_valid f \<longleftrightarrow> form_data f \<noteq> None \<and> form_errors f = []"

text \<open>\<^verbatim>\<open>form.cleaned_data\<close> of the two fields.\<close>

definition cleaned_title :: "form \<Rightarrow> pystr" where
  "cleaned_title f = (case form_data f of None \<Rightarrow> [] | Some d \<Rightarrow> to_python (p_title d))"

definition cleaned_content :: "form \<Rightarrow> pystr" where
  "cleaned_content f = (case form_data f of None \<Rightarrow> [] | Some d \<Rightarrow> to_python (p_content d))"

text \<open>
  \<^verbatim>\<open>form.save()\<close> of a valid form: the cleaned values are put on the instance,
  which is saved. Without an instance a new row is inserted.
\<close>

definition form_save :: "form \<Rightarrow> store \<Rightarrow> Note \<times> store" where
  "form_save f s =
     (case form_instance f of
        None \<Rightarrow> insert_row (cleaned_title f) (cleaned_content f) s
      | Some n \<Rightarrow> save_row (n\<lparr>title := cleaned_title f, content := cleaned_content f\<rparr>) s)"

subsection \<open>views.py: the five views\<close>

text \<open>
  A request carries its method and its POST data. A view returns a rendered template
  with its context, or a redirect to a named route, or raises \<^verbatim>\<open>Http404\<close>; it
  also returns the table as it leaves it.
\<close>

record request =
  req_method :: string
  req_POST :: post_data

datatype route = Note_list | Note_detail int

datatype template_ctx = Notes "Note list" | A_note Note | A_form form

datatype response = Render string template_ctx | Redirect route

fun status_code :: "error + response \<Rightarrow> nat" where
  "status_code (Inl Http404) = 404"
| "status_code (Inr (Render t c)) = 200"
| "status_code (Inr (Redirect r)) = 302"

text \<open>
  \<^verbatim>\<open>
  def note_list(request):
      notes = Note.objects.all().order_by("id")
      return render(request, "notes/note_list.html", {"notes": notes})
  \<close>
\<close>

definition note_list :: "request \<Rightarrow> store \<Rightarrow> (error + response) \<times> store" where
  "note_list req s =
     (let notes = order_by_id (objects_all s)
      in (Inr (Render ''notes/note_list.html'' (Notes notes)), s))"

text \<open>
  \<^verbatim>\<open>
  def note_detail(request, pk):
      note = get_object_or_404(Note, pk=pk)
      return render(request, "notes/note_detail.html", {"note": note})
  \<close>
\<close>

definition note_detail :: "request \<Rightarrow> int \<Rightarrow> store \<Rightarrow> (error + response) \<times> store" where
  "note_detail req pk s =
     (case get_object_or_404 s pk of
        Inl e \<Rightarrow> (Inl e, s)
      | Inr n \<Rightarrow> (Inr (Render ''notes/note_detail.html'' (A_note n)), s))"

text \<open>
  \<^verbatim>\<open>
  def note_create(request):
      if request.method == "POST":
          form = NoteForm(request.POST)
          if form.is_valid():
              note = form.save()
              return redirect("note_detail", pk=note.pk)
      else:
          form = NoteForm()
      return render(request, "notes/note_form.html", {"form": form})
  \<close>
\<close>

definition note_create :: "request \<Rightarrow> store \<Rightarrow> (error + response) \<times> store" where
  "note_create req s =
     (if req_method req = ''POST'' then
        (let f = NoteForm (Some (req_POST req)) None
         in if is_valid f then
              (case form_save f s of
                 (n, s') \<Rightarrow> (Inr (Redirect (Note_detail (note_id n))), s'))
            else (Inr (Render ''notes/note_form.html'' (A_form f)), s))
      else (Inr (Render ''notes/note_form.html'' (A_form (NoteForm None None))), s))"

text \<open>
  \<^verbatim>\<open>
  def note_update(request, pk):
      note = get_object_or_404(Note, pk=pk)
      if request.method == "POST":
          form = NoteForm(request.POST, instance=note)
          if form.is_valid():
              note = form.save()
              return redirect("note_detail", pk=note.pk)
      else:
          form = NoteForm(instance=note)
      return render(request, "notes/note_form.html", {"form": form})
  \<close>
\<close>

definition note_update :: "request \<Rightarrow> int \<Rightarrow> store \<Rightarrow> (error + response) \<times> store" where
  "note_update req pk s =
     (case get_object_or_404 s pk of
        Inl e \<Rightarrow> (Inl e, s)
      | Inr n \<Rightarrow>
          if req_method req = ''POST'' then
            (let f = NoteForm (Some (req_POST req)) (Some n)
             in if is_valid f then
                  (case form_save f s of
                     (n', s') \<Rightarrow> (Inr (Redirect (Note_detail (note_id n'))), s'))
                else (Inr (Render ''notes/note_form.html'' (A_form f)), s))
          else (Inr (Render ''notes/note_form.html'' (A_form (NoteForm None (Some n)))), s))"

text \<open>
  \<^verbatim>\<open>
  def note_delete(request, pk):
      note = get_object_or_404(Note, pk=pk)
      if request.method == "POST":
          note.delete()
          return redirect("note_list")
      return render(request, "notes/note_confirm_delete.html", {"note": note})
  \<close>
\<close>

definition note_delete :: "request \<Rightarrow> int \<Rightarrow> store \<Rightarrow> (error + response) \<times> store" where
  "note_delete req pk s =
     (case get_object_or_404 s pk of
        Inl e \<Rightarrow> (Inl e, s)
      | Inr n \<Rightarrow>
          if req_method req = ''POST'' then (Inr (Redirect Note_list), delete_row n s)
          else (Inr (Render ''notes/note_confirm_delete.html'' (A_note n)), s))"

text \<open>
  The tables that the views alone produce: the empty table, and every table a view
  leaves behind when it is called on one of them. A table that was also written by
  \<^verbatim>\<open>Note.objects.create\<close> is not among them.
\<close>

inductive reachable :: "store \<Rightarrow> bool" where
  r_empty: "reachable empty_store"
| r_list: "reachable s \<Longrightarrow> reachable (snd (note_list req s))"
| r_detail: "reachable s \<Longrightarrow> reachable (snd (note_detail req pk s))"
| r_create: "reachable s \<Longrightarrow> reachable (snd (note_create req s))"
| r_update: "reachable s \<Longrightarrow> reachable (snd (note_update req pk s))"
| r_delete: "reachable s \<Longrightarrow> reachable (snd (note_delete req pk s))"

text \<open>
  The primary key constraint of the table: no two rows share a key, and every key in
  use is below the counter.
\<close>

definition wf_store :: "store \<Rightarrow> bool" where
  "wf_store s \<longleftrightarrow> distinct (map note_id (rows s)) \<and> (\<forall>n \<in> set (rows s). note_id n < next_id s)"


section \<open>Facts about the embedding\<close>

subsection \<open>Strings and form fields\<close>

lemma strip_Nil: "strip [] = []"
  by (simp add: strip_def)

lemma dropWhile_none: "\<forall>c \<in> set s. \<not> P c \<Longrightarrow> dropWhile P s = s"
  by (cases s) auto

lemma strip_no_space: "\<forall>c \<in> set s. \<not> isspace c \<Longrightarrow> strip s = s"
  by (simp add: strip_def dropWhile_none)

lemma to_python_Some: "to_python (Some v) = strip v"
  by (simp add: to_python_def strip_def)

lemma to_python_None: "to_python None = []"
  by (simp add: to_python_def)

lemma field_errors_required: "to_python raw = [] \<Longrightarrow> field_errors limit raw = [Required]"
  by (simp add: field_errors_def clean_field_def)

text \<open>
  A field has no error exactly when its cleaned value is not empty, respects the limit
  and has no null character; the model's own check never adds an error to that.
\<close>

lemma field_errors_Nil_iff:
  "field_errors limit raw = [] \<longleftrightarrow>
     to_python raw \<noteq> [] \<and>
     (case limit of None \<Rightarrow> True | Some m \<Rightarrow> length (to_python raw) \<le> m) \<and>
     0 \<notin> set (to_python raw)"
  by (auto simp: field_errors_def clean_field_def run_validators_def model_clean_def Let_def
      split: option.splits list.splits if_splits)

lemma is_valid_iff:
  "is_valid (NoteForm (Some d) inst) \<longleftrightarrow>
     field_errors title_max_length (p_title d) = [] \<and>
     field_errors content_max_length (p_content d) = []"
  by (simp add: is_valid_def NoteForm_def form_errors_def errors_of_def)



lemma cleaned_simps:
  "cleaned_title (NoteForm (Some d) inst) = to_python (p_title d)"
  "cleaned_content (NoteForm (Some d) inst) = to_python (p_content d)"
  by (simp_all add: cleaned_title_def cleaned_content_def NoteForm_def)

lemma form_instance_NoteForm: "form_instance (NoteForm d i) = i"
  by (simp add: NoteForm_def)

subsection \<open>The table\<close>

lemma objects_get_None_iff: "objects_get s pk = None \<longleftrightarrow> pk \<notin> note_id ` set (rows s)"
  by (auto simp: objects_get_def find_None_iff)

lemma objects_get_SomeD: "objects_get s pk = Some n \<Longrightarrow> note_id n = pk \<and> n \<in> set (rows s)"
  by (auto simp: objects_get_def find_Some_iff)

lemma find_replace_same:
  "note_id n = j \<Longrightarrow> \<exists>r \<in> set rs. note_id r = j \<Longrightarrow>
   find (\<lambda>r. note_id r = j) (map (\<lambda>r. if note_id r = j then n else r) rs) = Some n"
  by (induction rs) auto

lemma find_replace_other:
  "note_id n = j \<Longrightarrow> k \<noteq> j \<Longrightarrow>
   find (\<lambda>r. note_id r = k) (map (\<lambda>r. if note_id r = j then n else r) rs) =
   find (\<lambda>r. note_id r = k) rs"
  by (induction rs) auto

lemma find_remove:
  "find (\<lambda>r. note_id r = k) (filter (\<lambda>r. note_id r \<noteq> j) rs) =
     (if k = j then None else find (\<lambda>r. note_id r = k) rs)"
  by (induction rs) auto

lemma find_snoc:
  "find P (rs @ [n]) =
     (case find P rs of None \<Rightarrow> (if P n then Some n else None) | Some r \<Rightarrow> Some r)"
  by (induction rs) auto

subsection \<open>Each view, one equation\<close>

lemma note_list_eq:
  "note_list req s = (Inr (Render ''notes/note_list.html'' (Notes (sort_key note_id (rows s)))), s)"
  by (simp add: note_list_def order_by_id_def objects_all_def)

lemma note_detail_eq:
  "note_detail req pk s =
     (case objects_get s pk of
        None \<Rightarrow> (Inl Http404, s)
      | Some n \<Rightarrow> (Inr (Render ''notes/note_detail.html'' (A_note n)), s))"
  by (simp add: note_detail_def get_object_or_404_def split: option.splits)

lemma note_create_eq:
  "note_create req s =
     (if req_method req = ''POST'' \<and> is_valid (NoteForm (Some (req_POST req)) None)
      then (Inr (Redirect (Note_detail (next_id s))),
            s\<lparr>rows := rows s @
                 [\<lparr>note_id = next_id s, title = to_python (p_title (req_POST req)),
                   content = to_python (p_content (req_POST req))\<rparr>],
               next_id := next_id s + 1\<rparr>)
      else (Inr (Render ''notes/note_form.html''
              (A_form (NoteForm (if req_method req = ''POST'' then Some (req_POST req) else None)
                 None))), s))"
  by (simp add: note_create_def Let_def form_save_def insert_row_def cleaned_simps
      form_instance_NoteForm)

lemma note_update_eq:
  "note_update req pk s =
     (case objects_get s pk of
        None \<Rightarrow> (Inl Http404, s)
      | Some n \<Rightarrow>
          if req_method req = ''POST'' \<and> is_valid (NoteForm (Some (req_POST req)) (Some n))
          then (Inr (Redirect (Note_detail pk)),
                s\<lparr>rows := map (\<lambda>r. if note_id r = pk
                     then n\<lparr>title := to_python (p_title (req_POST req)),
                            content := to_python (p_content (req_POST req))\<rparr>
                     else r) (rows s)\<rparr>)
          else (Inr (Render ''notes/note_form.html''
                  (A_form (NoteForm (if req_method req = ''POST'' then Some (req_POST req) else None)
                     (Some n)))), s))"
proof (cases "objects_get s pk")
  case None
  then show ?thesis by (simp add: note_update_def get_object_or_404_def)
next
  case (Some n)
  then have n: "note_id n = pk" "n \<in> set (rows s)" by (auto dest: objects_get_SomeD)
  then have ex: "\<exists>r \<in> set (rows s). note_id r = pk" by blast
  show ?thesis
    using Some n(1) ex
    by (simp add: note_update_def get_object_or_404_def Let_def form_save_def save_row_def
        cleaned_simps form_instance_NoteForm)
qed

lemma note_delete_eq:
  "note_delete req pk s =
     (case objects_get s pk of
        None \<Rightarrow> (Inl Http404, s)
      | Some n \<Rightarrow>
          if req_method req = ''POST''
          then (Inr (Redirect Note_list), s\<lparr>rows := filter (\<lambda>r. note_id r \<noteq> pk) (rows s)\<rparr>)
          else (Inr (Render ''notes/note_confirm_delete.html'' (A_note n)), s))"
  by (auto simp: note_delete_def get_object_or_404_def delete_row_def
      split: option.splits dest: objects_get_SomeD)

subsection \<open>Invariants of the table\<close>

lemma wf_empty: "wf_store empty_store"
  by (simp add: wf_store_def empty_store_def)

lemma wf_create: "wf_store s \<Longrightarrow> wf_store (snd (note_create req s))"
  by (fastforce simp: note_create_eq wf_store_def)

lemma replace_keeps_ids:
  "note_id n = pk \<Longrightarrow> note_id \<circ> (\<lambda>r. if note_id r = pk then n else r) = note_id"
  by (auto simp: fun_eq_iff)

lemma wf_update: "wf_store s \<Longrightarrow> wf_store (snd (note_update req pk s))"
proof (cases "objects_get s pk")
  case None
  assume "wf_store s"
  with None show ?thesis by (simp add: note_update_eq)
next
  case (Some n)
  assume wf: "wf_store s"
  from Some have n: "note_id n = pk" "n \<in> set (rows s)"
    by (simp_all add: objects_get_SomeD)
  then have "note_id \<circ> (\<lambda>r. if note_id r = pk
      then n\<lparr>title := t, content := c\<rparr> else r) = note_id" for t c
    by (intro replace_keeps_ids) simp
  with wf Some n show ?thesis
    by (auto simp: note_update_eq wf_store_def)
qed

lemma wf_delete: "wf_store s \<Longrightarrow> wf_store (snd (note_delete req pk s))"
  by (auto simp: note_delete_eq wf_store_def distinct_map_filter split: option.splits)

lemma reachable_wf: "reachable s \<Longrightarrow> wf_store s"
  by (induction rule: reachable.induct)
     (simp_all add: wf_empty wf_create wf_update wf_delete note_list_eq note_detail_eq
        split: option.splits)





text \<open>The facts that evaluate a form on concrete data.\<close>

lemmas form_eval =
  is_valid_iff field_errors_Nil_iff to_python_Some to_python_None strip_def isspace_def
  str_of_def title_max_length_def content_max_length_def

section \<open>The validator\<close>

text \<open>
  C1 (as amended). A submission is valid exactly when title and content are both
  present and not empty after trimming, the trimmed title has at most 255 characters
  and neither trimmed value has a null character. In particular a submission whose
  title or content is absent, empty or only whitespace is invalid.
\<close>

theorem validator_valid_iff:
  "(is_valid (NoteForm (Some \<lparr>p_title = t, p_content = c\<rparr>) inst) \<longleftrightarrow>
      (\<exists>tv cv. t = Some tv \<and> c = Some cv \<and> strip tv \<noteq> [] \<and> strip cv \<noteq> [] \<and>
         length (strip tv) \<le> 255 \<and> 0 \<notin> set (strip tv) \<and> 0 \<notin> set (strip cv))) \<and>
   (t = None \<or> (\<exists>v. t = Some v \<and> strip v = []) \<or> c = None \<or> (\<exists>v. c = Some v \<and> strip v = [])
      \<longrightarrow> \<not> is_valid (NoteForm (Some \<lparr>p_title = t, p_content = c\<rparr>) inst))"
  by (cases t; cases c)
     (auto simp: is_valid_iff field_errors_Nil_iff title_max_length_def content_max_length_def
        to_python_Some to_python_None)

text \<open>
  The form data of the repository's own form tests: a title and a content make a valid
  form, an empty title an invalid one.
\<close>

theorem validator_valid_iff_witness:
  "is_valid (NoteForm (Some \<lparr>p_title = Some (str_of ''Form Note''),
       p_content = Some (str_of ''Form note body.'')\<rparr>) None) \<and>
   \<not> is_valid (NoteForm (Some \<lparr>p_title = Some [],
       p_content = Some (str_of ''Missing title.'')\<rparr>) None)"
  using validator_valid_iff [of "Some (str_of ''Form Note'')" "Some (str_of ''Form note body.'')" None]
    validator_valid_iff [of "Some []" "Some (str_of ''Missing title.'')" None]
  by (simp add: str_of_def strip_def isspace_def)

text \<open>
  C1 as the claim states it fails: a title of 256 letters \<open>a\<close> and the content \<open>b\<close> are
  both present and not empty after trimming, and the form is invalid.
\<close>

theorem validator_long_title_counterexample:
  "strip (replicate 256 97) \<noteq> [] \<and> strip (str_of ''b'') \<noteq> [] \<and>
   \<not> is_valid (NoteForm (Some \<lparr>p_title = Some (replicate 256 97),
       p_content = Some (str_of ''b'')\<rparr>) None)"
proof -
  have t: "strip (replicate 256 97) = replicate 256 97"
    by (rule strip_no_space) (simp add: isspace_def)
  have c: "strip (str_of ''b'') = [98]"
    by (simp add: str_of_def strip_def isspace_def)
  show ?thesis
    by (simp add: t c is_valid_iff field_errors_Nil_iff title_max_length_def to_python_Some)
qed

text \<open>
  C2. A missing field (absent, or empty after trimming) carries exactly the error whose
  message is \<open>This field is required.\<close>, the title and the content each on its own
  account, so a submission that misses both carries it on both.
\<close>

theorem required_errors:
  "(p_title d = None \<or> (\<exists>v. p_title d = Some v \<and> strip v = []) \<longrightarrow>
      map_of (form_errors (NoteForm (Some d) inst)) ''title'' = Some [Required]) \<and>
   (p_content d = None \<or> (\<exists>v. p_content d = Some v \<and> strip v = []) \<longrightarrow>
      map_of (form_errors (NoteForm (Some d) inst)) ''content'' = Some [Required]) \<and>
   message Required = ''This field is required.''"
  by (auto simp: form_errors_def NoteForm_def errors_of_def field_errors_required
      to_python_Some to_python_None)

text \<open>The form of the repository's invalid create test: both fields empty.\<close>

theorem required_errors_witness:
  "map_of (form_errors (NoteForm (Some \<lparr>p_title = Some [], p_content = Some []\<rparr>) None)) ''title''
     = Some [Required] \<and>
   map_of (form_errors (NoteForm (Some \<lparr>p_title = Some [], p_content = Some []\<rparr>) None)) ''content''
     = Some [Required] \<and>
   \<not> is_valid (NoteForm (Some \<lparr>p_title = Some [], p_content = Some []\<rparr>) None)"
  using required_errors [of "\<lparr>p_title = Some [], p_content = Some []\<rparr>" None]
  by (auto simp: strip_def is_valid_def)

section \<open>The views\<close>

text \<open>
  C3. For every key, request and table, the detail, update and delete views raise
  \<open>Http404\<close> (status 404) exactly when no row of the table has the key, and then
  they return the table as they found it.
\<close>

theorem not_found_iff:
  "(fst (note_detail req pk s) = Inl Http404 \<longleftrightarrow> pk \<notin> note_id ` set (rows s)) \<and>
   (fst (note_update req pk s) = Inl Http404 \<longleftrightarrow> pk \<notin> note_id ` set (rows s)) \<and>
   (fst (note_delete req pk s) = Inl Http404 \<longleftrightarrow> pk \<notin> note_id ` set (rows s)) \<and>
   (status_code (fst (note_detail req pk s)) = 404 \<longleftrightarrow> pk \<notin> note_id ` set (rows s)) \<and>
   (status_code (fst (note_update req pk s)) = 404 \<longleftrightarrow> pk \<notin> note_id ` set (rows s)) \<and>
   (status_code (fst (note_delete req pk s)) = 404 \<longleftrightarrow> pk \<notin> note_id ` set (rows s)) \<and>
   (pk \<notin> note_id ` set (rows s) \<longrightarrow>
      snd (note_detail req pk s) = s \<and> snd (note_update req pk s) = s \<and>
      snd (note_delete req pk s) = s)"
proof (cases "objects_get s pk")
  case None
  then have "pk \<notin> note_id ` set (rows s)" by (simp add: objects_get_None_iff)
  with None show ?thesis
    by (simp add: note_detail_eq note_update_eq note_delete_eq)
next
  case (Some n)
  then have "pk \<in> note_id ` set (rows s)" by (auto dest: objects_get_SomeD)
  with Some show ?thesis
    by (simp add: note_detail_eq note_update_eq note_delete_eq)
qed

text \<open>The key 9999 of the repository's test, on a table that holds one note.\<close>

theorem not_found_iff_witness:
  "note_detail \<lparr>req_method = ''GET'', req_POST = \<lparr>p_title = None, p_content = None\<rparr>\<rparr> 9999
     \<lparr>rows = [\<lparr>note_id = 1, title = str_of ''Initial Note'', content = str_of ''x''\<rparr>], next_id = 2\<rparr>
   = (Inl Http404,
      \<lparr>rows = [\<lparr>note_id = 1, title = str_of ''Initial Note'', content = str_of ''x''\<rparr>], next_id = 2\<rparr>)"
  using not_found_iff [of "\<lparr>req_method = ''GET'', req_POST = \<lparr>p_title = None, p_content = None\<rparr>\<rparr>"
      9999 "\<lparr>rows = [\<lparr>note_id = 1, title = str_of ''Initial Note'', content = str_of ''x''\<rparr>], next_id = 2\<rparr>"]
  by (simp add: prod_eq_iff)

text \<open>
  C4 (as amended). A valid create submission appends exactly one row, under the next
  key, whose title and content are the submitted values with leading and trailing
  whitespace removed; the table has one row more, a fetch by the new key returns that
  row, and the response redirects to the detail view of the new key.
\<close>

theorem create_valid:
  assumes "req_method req = ''POST''"
    and "req_POST req = \<lparr>p_title = Some t, p_content = Some c\<rparr>"
    and "is_valid (NoteForm (Some (req_POST req)) None)"
    and "wf_store s"
  shows "fst (note_create req s) = Inr (Redirect (Note_detail (next_id s))) \<and>
     status_code (fst (note_create req s)) = 302 \<and>
     rows (snd (note_create req s)) =
       rows s @ [\<lparr>note_id = next_id s, title = strip t, content = strip c\<rparr>] \<and>
     length (rows (snd (note_create req s))) = length (rows s) + 1 \<and>
     objects_get s (next_id s) = None \<and>
     objects_get (snd (note_create req s)) (next_id s) =
       Some \<lparr>note_id = next_id s, title = strip t, content = strip c\<rparr>"
proof -
  from assms(4) have fresh: "objects_get s (next_id s) = None"
    by (auto simp: objects_get_None_iff wf_store_def)
  then have "find (\<lambda>n. note_id n = next_id s) (rows s) = None"
    by (simp add: objects_get_def)
  with assms(1-3) fresh show ?thesis
    by (simp add: note_create_eq to_python_Some objects_get_def find_snoc)
qed

text \<open>The create submission of the repository's test, on a table that holds one note.\<close>

theorem create_valid_witness:
  "note_create
     \<lparr>req_method = ''POST'',
      req_POST = \<lparr>p_title = Some (str_of ''New Note''), p_content = Some (str_of ''New note content.'')\<rparr>\<rparr>
     \<lparr>rows = [\<lparr>note_id = 1, title = str_of ''Initial Note'', content = str_of ''x''\<rparr>], next_id = 2\<rparr>
   = (Inr (Redirect (Note_detail 2)),
      \<lparr>rows = [\<lparr>note_id = 1, title = str_of ''Initial Note'', content = str_of ''x''\<rparr>,
               \<lparr>note_id = 2, title = str_of ''New Note'', content = str_of ''New note content.''\<rparr>],
       next_id = 3\<rparr>)"
proof -
  let ?req = "\<lparr>req_method = ''POST'',
      req_POST = \<lparr>p_title = Some (str_of ''New Note''), p_content = Some (str_of ''New note content.'')\<rparr>\<rparr>"
  let ?s = "\<lparr>rows = [\<lparr>note_id = 1, title = str_of ''Initial Note'', content = str_of ''x''\<rparr>], next_id = 2\<rparr>"
  have m: "req_method ?req = ''POST''" by simp
  have d: "req_POST ?req =
      \<lparr>p_title = Some (str_of ''New Note''), p_content = Some (str_of ''New note content.'')\<rparr>"
    by simp
  have v: "is_valid (NoteForm (Some (req_POST ?req)) None)" by (simp add: form_eval)
  have w: "wf_store ?s" by (simp add: wf_store_def)
  have n: "next_id (snd (note_create ?req ?s)) = 3" using v by (simp add: note_create_eq)
  from create_valid [OF m d v w] n show ?thesis
    by (simp add: prod_eq_iff store.equality strip_def isspace_def str_of_def)
qed

text \<open>
  C4 as the claim states it fails: the submitted title \<open>" a"\<close> is valid, and the row
  that is persisted has the title \<open>"a"\<close>, which is not the submitted value.
\<close>

theorem create_trims_counterexample:
  "is_valid (NoteForm (Some \<lparr>p_title = Some (str_of '' a''), p_content = Some (str_of ''b'')\<rparr>) None) \<and>
   rows (snd (note_create
     \<lparr>req_method = ''POST'',
      req_POST = \<lparr>p_title = Some (str_of '' a''), p_content = Some (str_of ''b'')\<rparr>\<rparr> empty_store))
   = [\<lparr>note_id = 1, title = str_of ''a'', content = str_of ''b''\<rparr>] \<and>
   str_of ''a'' \<noteq> str_of '' a''"
  by (simp add: note_create_eq form_eval empty_store_def)



text \<open>
  C6 (as amended). A valid update submission for an existing note puts the submitted
  title and content, with leading and trailing whitespace removed, on the row of that
  key and on no other; the keys of the table and their order stay as they were, a
  fetch by the same key returns the updated row, and the response redirects to the
  detail view of that key.
\<close>

theorem update_valid:
  assumes "req_method req = ''POST''"
    and "req_POST req = \<lparr>p_title = Some t, p_content = Some c\<rparr>"
    and "is_valid (NoteForm (Some (req_POST req)) (Some n))"
    and "objects_get s pk = Some n"
  shows "fst (note_update req pk s) = Inr (Redirect (Note_detail pk)) \<and>
     status_code (fst (note_update req pk s)) = 302 \<and>
     objects_get (snd (note_update req pk s)) pk =
       Some \<lparr>note_id = pk, title = strip t, content = strip c\<rparr> \<and>
     map note_id (rows (snd (note_update req pk s))) = map note_id (rows s) \<and>
     next_id (snd (note_update req pk s)) = next_id s"
proof -
  let ?n' = "n\<lparr>title := to_python (p_title (req_POST req)),
                content := to_python (p_content (req_POST req))\<rparr>"
  from assms(4) have n: "note_id n = pk" "n \<in> set (rows s)"
    by (simp_all add: objects_get_SomeD)
  then have ex: "\<exists>r \<in> set (rows s). note_id r = pk" by blast
  have id': "note_id ?n' = pk" using n(1) by simp
  have get: "find (\<lambda>r. note_id r = pk) (map (\<lambda>r. if note_id r = pk then ?n' else r) (rows s))
      = Some ?n'"
    using id' ex by (rule find_replace_same)
  have ids: "note_id \<circ> (\<lambda>r. if note_id r = pk then ?n' else r) = note_id"
    using id' by (rule replace_keeps_ids)
  have val: "?n' = \<lparr>note_id = pk, title = strip t, content = strip c\<rparr>"
    using n(1) assms(2) by (simp add: to_python_Some)
  from assms(1,3,4) get ids val show ?thesis
    by (simp add: note_update_eq objects_get_def)
qed

text \<open>The update submission of the repository's test.\<close>

theorem update_valid_witness:
  "note_update
     \<lparr>req_method = ''POST'',
      req_POST = \<lparr>p_title = Some (str_of ''Updated Title''), p_content = Some (str_of ''Updated content.'')\<rparr>\<rparr>
     1 \<lparr>rows = [\<lparr>note_id = 1, title = str_of ''Initial Note'', content = str_of ''x''\<rparr>], next_id = 2\<rparr>
   = (Inr (Redirect (Note_detail 1)),
      \<lparr>rows = [\<lparr>note_id = 1, title = str_of ''Updated Title'', content = str_of ''Updated content.''\<rparr>],
       next_id = 2\<rparr>)"
proof -
  let ?req = "\<lparr>req_method = ''POST'',
      req_POST = \<lparr>p_title = Some (str_of ''Updated Title''), p_content = Some (str_of ''Updated content.'')\<rparr>\<rparr>"
  let ?n = "\<lparr>note_id = 1, title = str_of ''Initial Note'', content = str_of ''x''\<rparr>"
  let ?s = "\<lparr>rows = [?n], next_id = 2\<rparr>"
  have m: "req_method ?req = ''POST''" by simp
  have d: "req_POST ?req =
      \<lparr>p_title = Some (str_of ''Updated Title''), p_content = Some (str_of ''Updated content.'')\<rparr>"
    by simp
  have v: "is_valid (NoteForm (Some (req_POST ?req)) (Some ?n))" by (simp add: form_eval)
  have g: "objects_get ?s 1 = Some ?n" by (simp add: objects_get_def)
  have r: "rows (snd (note_update ?req 1 ?s)) =
      [\<lparr>note_id = 1, title = str_of ''Updated Title'', content = str_of ''Updated content.''\<rparr>]"
    using v g by (simp add: note_update_eq form_eval)
  from update_valid [OF m d v g] r show ?thesis
    by (simp add: prod_eq_iff store.equality)
qed

text \<open>
  C6 as the claim states it fails: the submitted title \<open>" a"\<close> is valid, and a fetch
  after the update returns the title \<open>"a"\<close>, which is not the submitted value.
\<close>

theorem update_trims_counterexample:
  "is_valid (NoteForm (Some \<lparr>p_title = Some (str_of '' a''), p_content = Some (str_of ''b'')\<rparr>)
     (Some \<lparr>note_id = 1, title = str_of ''t'', content = str_of ''c''\<rparr>)) \<and>
   objects_get (snd (note_update
     \<lparr>req_method = ''POST'',
      req_POST = \<lparr>p_title = Some (str_of '' a''), p_content = Some (str_of ''b'')\<rparr>\<rparr> 1
     \<lparr>rows = [\<lparr>note_id = 1, title = str_of ''t'', content = str_of ''c''\<rparr>], next_id = 2\<rparr>)) 1
   = Some \<lparr>note_id = 1, title = str_of ''a'', content = str_of ''b''\<rparr> \<and>
   str_of ''a'' \<noteq> str_of '' a''"
  by (simp add: note_update_eq form_eval objects_get_def)

text \<open>
  C7. A delete submission for an existing note removes the rows of that key and no
  other row: a fetch by the key finds nothing afterwards, the detail view of the key
  raises \<open>Http404\<close>, and the response redirects to the list view.
\<close>

theorem delete_existing:
  assumes "req_method req = ''POST''"
    and "objects_get s pk = Some n"
  shows "fst (note_delete req pk s) = Inr (Redirect Note_list) \<and>
     status_code (fst (note_delete req pk s)) = 302 \<and>
     rows (snd (note_delete req pk s)) = filter (\<lambda>r. note_id r \<noteq> pk) (rows s) \<and>
     objects_get (snd (note_delete req pk s)) pk = None \<and>
     fst (note_detail req' pk (snd (note_delete req pk s))) = Inl Http404"
  using assms by (simp add: note_delete_eq note_detail_eq objects_get_def find_remove)

text \<open>The delete submission of the repository's test: the table is empty afterwards.\<close>

theorem delete_existing_witness:
  "note_delete \<lparr>req_method = ''POST'', req_POST = \<lparr>p_title = None, p_content = None\<rparr>\<rparr> 1
     \<lparr>rows = [\<lparr>note_id = 1, title = str_of ''Initial Note'', content = str_of ''x''\<rparr>], next_id = 2\<rparr>
   = (Inr (Redirect Note_list), \<lparr>rows = [], next_id = 2\<rparr>)"
proof -
  let ?req = "\<lparr>req_method = ''POST'', req_POST = \<lparr>p_title = None, p_content = None\<rparr>\<rparr>"
  let ?n = "\<lparr>note_id = 1, title = str_of ''Initial Note'', content = str_of ''x''\<rparr>"
  let ?s = "\<lparr>rows = [?n], next_id = 2\<rparr>"
  have m: "req_method ?req = ''POST''" by simp
  have g: "objects_get ?s 1 = Some ?n" by (simp add: objects_get_def)
  have k: "next_id (snd (note_delete ?req 1 ?s)) = 2" using g by (simp add: note_delete_eq)
  from delete_existing [OF m g] k show ?thesis
    by (simp add: prod_eq_iff store.equality)
qed

text \<open>
  C8. On every table, the empty one included, the list view answers with status 200
  and the list template over the notes of the table, all of them and each as often as
  the table holds it, in ascending order of their keys; the table is returned as it was.
\<close>

theorem list_sorted:
  "\<exists>ns. note_list req s = (Inr (Render ''notes/note_list.html'' (Notes ns)), s) \<and>
      sorted (map note_id ns) \<and> mset ns = mset (rows s) \<and>
      status_code (fst (note_list req s)) = 200"
  by (simp add: note_list_eq)

text \<open>A table whose rows are not stored in the order of their keys, and the empty table.\<close>

theorem list_sorted_witness:
  "note_list \<lparr>req_method = ''GET'', req_POST = \<lparr>p_title = None, p_content = None\<rparr>\<rparr>
     \<lparr>rows = [\<lparr>note_id = 2, title = str_of ''b'', content = str_of ''y''\<rparr>,
              \<lparr>note_id = 1, title = str_of ''a'', content = str_of ''x''\<rparr>], next_id = 3\<rparr>
   = (Inr (Render ''notes/note_list.html''
        (Notes [\<lparr>note_id = 1, title = str_of ''a'', content = str_of ''x''\<rparr>,
                \<lparr>note_id = 2, title = str_of ''b'', content = str_of ''y''\<rparr>])),
      \<lparr>rows = [\<lparr>note_id = 2, title = str_of ''b'', content = str_of ''y''\<rparr>,
               \<lparr>note_id = 1, title = str_of ''a'', content = str_of ''x''\<rparr>], next_id = 3\<rparr>) \<and>
   note_list \<lparr>req_method = ''GET'', req_POST = \<lparr>p_title = None, p_content = None\<rparr>\<rparr> empty_store
   = (Inr (Render ''notes/note_list.html'' (Notes [])), empty_store)"
  using list_sorted [of "\<lparr>req_method = ''GET'', req_POST = \<lparr>p_title = None, p_content = None\<rparr>\<rparr>"
      empty_store]
  by (auto simp: note_list_eq empty_store_def)




text \<open>
  C10. Whatever the request, an update or a delete of the key \<open>pk\<close> leaves a fetch by
  any other key as it was, and a create leaves every note that a fetch found before
  to be found unchanged, key, title and content.
\<close>

theorem views_frame:
  "(pk' \<noteq> pk \<longrightarrow>
      objects_get (snd (note_update req pk s)) pk' = objects_get s pk' \<and>
      objects_get (snd (note_delete req pk s)) pk' = objects_get s pk') \<and>
   (objects_get s pk' = Some n \<longrightarrow> objects_get (snd (note_create req s)) pk' = Some n)"
proof -
  have upd: "objects_get (snd (note_update req pk s)) pk' = objects_get s pk'" if "pk' \<noteq> pk"
  proof (cases "objects_get s pk")
    case None
    then show ?thesis by (simp add: note_update_eq)
  next
    case (Some m)
    then have "note_id m = pk" by (simp add: objects_get_SomeD)
    then have "note_id (m\<lparr>title := t, content := c\<rparr>) = pk" for t c by simp
    from find_replace_other [OF this that] Some show ?thesis
      by (simp add: note_update_eq objects_get_def)
  qed
  have del: "objects_get (snd (note_delete req pk s)) pk' = objects_get s pk'" if "pk' \<noteq> pk"
    using that by (simp add: note_delete_eq objects_get_def find_remove split: option.splits)
  have cre: "objects_get (snd (note_create req s)) pk' = Some n" if "objects_get s pk' = Some n"
    using that by (simp add: note_create_eq objects_get_def find_snoc)
  from upd del cre show ?thesis by blast
qed

text \<open>A table of two notes: the second is as it was after an update or a delete of the first.\<close>

theorem views_frame_witness:
  "objects_get (snd (note_update
      \<lparr>req_method = ''POST'', req_POST = \<lparr>p_title = Some (str_of ''t''), p_content = Some (str_of ''c'')\<rparr>\<rparr> 1
      \<lparr>rows = [\<lparr>note_id = 1, title = str_of ''a'', content = str_of ''x''\<rparr>,
               \<lparr>note_id = 2, title = str_of ''b'', content = str_of ''y''\<rparr>], next_id = 3\<rparr>)) 2
   = Some \<lparr>note_id = 2, title = str_of ''b'', content = str_of ''y''\<rparr> \<and>
   objects_get (snd (note_delete
      \<lparr>req_method = ''POST'', req_POST = \<lparr>p_title = Some (str_of ''t''), p_content = Some (str_of ''c'')\<rparr>\<rparr> 1
      \<lparr>rows = [\<lparr>note_id = 1, title = str_of ''a'', content = str_of ''x''\<rparr>,
               \<lparr>note_id = 2, title = str_of ''b'', content = str_of ''y''\<rparr>], next_id = 3\<rparr>)) 2
   = Some \<lparr>note_id = 2, title = str_of ''b'', content = str_of ''y''\<rparr> \<and>
   objects_get (snd (note_create
      \<lparr>req_method = ''POST'', req_POST = \<lparr>p_title = Some (str_of ''t''), p_content = Some (str_of ''c'')\<rparr>\<rparr>
      \<lparr>rows = [\<lparr>note_id = 1, title = str_of ''a'', content = str_of ''x''\<rparr>,
               \<lparr>note_id = 2, title = str_of ''b'', content = str_of ''y''\<rparr>], next_id = 3\<rparr>)) 2
   = Some \<lparr>note_id = 2, title = str_of ''b'', content = str_of ''y''\<rparr>"
proof -
  let ?req = "\<lparr>req_method = ''POST'',
      req_POST = \<lparr>p_title = Some (str_of ''t''), p_content = Some (str_of ''c'')\<rparr>\<rparr>"
  let ?b = "\<lparr>note_id = 2, title = str_of ''b'', content = str_of ''y''\<rparr>"
  let ?s = "\<lparr>rows = [\<lparr>note_id = 1, title = str_of ''a'', content = str_of ''x''\<rparr>, ?b], next_id = 3\<rparr>"
  have g: "objects_get ?s 2 = Some ?b" by (simp add: objects_get_def)
  from views_frame [of 2 1 ?req ?s ?b] g show ?thesis by simp
qed

end
